theory Spec2Isabelle
  imports Complex_Main
begin

section \<open>Values of the script\<close>

text \<open>
  A Python \<^verbatim>\<open>str\<close> is a list of code points; \<open>lit\<close> writes a literal of the
  script. A code point from 55296 to 57343 is a surrogate: a \<^verbatim>\<open>str\<close> may hold one
  alone, but UTF-8 cannot encode it.

  The chat history of \<^verbatim>\<open>main.py\<close> is typed \<^verbatim>\<open>List[Dict[str, Any]]\<close>, and
  \<^verbatim>\<open>load_history\<close> hands out whatever \<^verbatim>\<open>json.load\<close> found under the key
  \<^verbatim>\<open>"history"\<close>. The values the script handles are therefore modelled as JSON
  values. A Python dict keeps insertion order, so an object is an association list; a
  Python \<^verbatim>\<open>int\<close> or \<^verbatim>\<open>float\<close> is a real number (the script only stores,
  compares and copies numbers).
\<close>

type_synonym str = "nat list"

abbreviation lit :: "string \<Rightarrow> str" where
  "lit s \<equiv> map of_char s"

datatype json =
    JNull
  | JBool bool
  | JNum real
  | JStr str
  | JArr "json list"
  | JObj "(str \<times> json) list"

datatype exn =
    AttributeError
  | KeyError
  | TypeError
  | IndexError
  | OSError
  | OverflowError
  | UnicodeEncodeError
  | JSONDecodeError
  | OpenAIError
  | RemoteError

text \<open>\<^verbatim>\<open>d.get(key, default)\<close>: only a dict has the method.\<close>

fun py_get :: "json \<Rightarrow> str \<Rightarrow> json \<Rightarrow> exn + json" where
  "py_get (JObj kvs) key dflt = Inr (case map_of kvs key of None \<Rightarrow> dflt | Some v \<Rightarrow> v)"
| "py_get _ key dflt = Inl AttributeError"

text \<open>\<^verbatim>\<open>h[key]\<close> with a string key: a dict without the key raises
  \<^verbatim>\<open>KeyError\<close>, every other value raises \<^verbatim>\<open>TypeError\<close>.\<close>

fun py_item :: "json \<Rightarrow> str \<Rightarrow> exn + json" where
  "py_item (JObj kvs) key = (case map_of kvs key of None \<Rightarrow> Inl KeyError | Some v \<Rightarrow> Inr v)"
| "py_item _ key = Inl TypeError"

text \<open>\<^verbatim>\<open>xs[-n:]\<close>: the last \<open>n\<close> elements, all of them when there are fewer.\<close>

definition py_last :: "nat \<Rightarrow> 'a list \<Rightarrow> 'a list" where
  "py_last n xs = drop (length xs - n) xs"

text \<open>\<^verbatim>\<open>str.isspace\<close> on one code point, and \<^verbatim>\<open>str.strip()\<close>.\<close>

definition isspace :: "nat \<Rightarrow> bool" where
  "isspace c = (c \<in> {9, 10, 11, 12, 13, 28, 29, 30, 31, 32, 133, 160, 5760, 8192, 8193,
                      8194, 8195, 8196, 8197, 8198, 8199, 8200, 8201, 8202, 8232, 8233,
                      8239, 8287, 12288})"

definition strip :: "str \<Rightarrow> str" where
  "strip s = rev (dropWhile isspace (rev (dropWhile isspace s)))"

text \<open>The truth value of a Python value (\<^verbatim>\<open>if not history\<close>).\<close>

fun truthy :: "json \<Rightarrow> bool" where
  "truthy JNull = False"
| "truthy (JBool b) = b"
| "truthy (JNum x) = (x \<noteq> 0)"
| "truthy (JStr s) = (s \<noteq> [])"
| "truthy (JArr xs) = (xs \<noteq> [])"
| "truthy (JObj kvs) = (kvs \<noteq> [])"

text \<open>\<^verbatim>\<open>for msg in history\<close>: a list gives its elements, a string its characters, a
  dict its keys; nothing else can be iterated.\<close>

fun py_iter :: "json \<Rightarrow> exn + json list" where
  "py_iter (JArr xs) = Inr xs"
| "py_iter (JStr s) = Inr (map (\<lambda>c. JStr [c]) s)"
| "py_iter (JObj kvs) = Inr (map (\<lambda>kv. JStr (fst kv)) kvs)"
| "py_iter _ = Inl TypeError"

text \<open>Whether a text file opened with \<^verbatim>\<open>encoding="utf-8"\<close> takes what
  \<^verbatim>\<open>json.dump(..., ensure_ascii=False)\<close> writes for a value: every string goes out
  as it is, and a lone surrogate cannot be encoded.\<close>

definition utf8_ok :: "str \<Rightarrow> bool" where
  "utf8_ok s = list_all (\<lambda>c. \<not> (55296 \<le> c \<and> c \<le> 57343)) s"

primrec encodable :: "json \<Rightarrow> bool" where
  "encodable JNull = True"
| "encodable (JBool b) = True"
| "encodable (JNum x) = True"
| "encodable (JStr s) = utf8_ok s"
| "encodable (JArr xs) = list_all id (map encodable xs)"
| "encodable (JObj kvs) =
     list_all (\<lambda>kv. utf8_ok (fst kv) \<and> snd kv) (map (map_prod id encodable) kvs)"

section \<open>Configuration and personas\<close>

definition PERSIST_FILE :: string where
  "PERSIST_FILE = ''chat_history.json''"

definition DEFAULT_MODEL :: str where
  "DEFAULT_MODEL = lit ''gpt-3.5-turbo''"

datatype persona_key = RoastBot | ShakespeareBot | EmojiBot

record persona =
  name :: str
  system :: str

fun key_name :: "persona_key \<Rightarrow> str" where
  "key_name RoastBot = lit ''RoastBot''"
| "key_name ShakespeareBot = lit ''ShakespeareBot''"
| "key_name EmojiBot = lit ''EmojiBot''"

fun PERSONAS :: "persona_key \<Rightarrow> persona" where
  "PERSONAS RoastBot = \<lparr>name = lit ''RoastBot'',
     system = lit (''You are RoastBot. Give short, witty, playful roasts. '' @
              ''If user asks for serious info, give it with a mild sarcastic touch.'')\<rparr>"
| "PERSONAS ShakespeareBot = \<lparr>name = lit ''ShakespeareBot'',
     system = lit (''You are ShakespeareBot. Reply in Early Modern English style. '' @
              ''Use 'thee', 'thou', poetic phrasing, and a formal tone.'')\<rparr>"
| "PERSONAS EmojiBot = \<lparr>name = lit ''EmojiBot'',
     system = lit (''You are EmojiBot. Translate messages mostly into emojis. '' @
              ''You can add a short English note in parentheses if needed.'')\<rparr>"

section \<open>The disk\<close>

text \<open>
  What the script can observe of a path: whether something exists there, and what
  \<^verbatim>\<open>open\<close> followed by \<^verbatim>\<open>json.load\<close> does with it. \<open>Unreadable\<close> is an entry
  that exists but cannot be opened for reading (a directory, a file without permission),
  \<open>Malformed\<close> is a file on which \<^verbatim>\<open>json.load\<close> raises, and \<open>Document j\<close> is a file
  that \<^verbatim>\<open>json.load\<close> reads as the value \<open>j\<close>. That a complete \<^verbatim>\<open>json.dump\<close> of
  \<open>j\<close> leaves a file which \<^verbatim>\<open>json.load\<close> reads as \<open>j\<close> is the contract of Python's
  \<^verbatim>\<open>json\<close> module, taken here as given. The operating system may refuse to open a
  path for writing or to remove it.
\<close>

datatype node = Unreadable | Malformed | Document json

record filesystem =
  nodes :: "string \<rightharpoonup> node"
  write_refused :: "string \<Rightarrow> bool"
  remove_refused :: "string \<Rightarrow> bool"

definition path_exists :: "filesystem \<Rightarrow> string \<Rightarrow> bool" where
  "path_exists fs filename = (nodes fs filename \<noteq> None)"

definition read_json :: "filesystem \<Rightarrow> string \<Rightarrow> exn + json" where
  "read_json fs filename =
     (case nodes fs filename of
        None \<Rightarrow> Inl OSError
      | Some Unreadable \<Rightarrow> Inl OSError
      | Some Malformed \<Rightarrow> Inl JSONDecodeError
      | Some (Document data) \<Rightarrow> Inr data)"

text \<open>
  \<^verbatim>\<open>with open(filename, "w", encoding="utf-8") as f: json.dump(data, f, ...)\<close>: a
  refused \<^verbatim>\<open>open\<close> raises and leaves the disk as it was. Otherwise \<^verbatim>\<open>open\<close> has
  emptied the file, and when the data holds a string that UTF-8 cannot encode the write
  raises part-way: what is left is the beginning of a document, which does not parse.
  The result is the disk and the exception raised, if any.
\<close>

definition write_json :: "filesystem \<Rightarrow> string \<Rightarrow> json \<Rightarrow> filesystem \<times> exn option" where
  "write_json fs filename data =
     (if write_refused fs filename then (fs, Some OSError)
      else if \<not> encodable data
      then (fs\<lparr>nodes := (nodes fs)(filename \<mapsto> Malformed)\<rparr>, Some UnicodeEncodeError)
      else (fs\<lparr>nodes := (nodes fs)(filename \<mapsto> Document data)\<rparr>, None))"

definition remove :: "filesystem \<Rightarrow> string \<Rightarrow> exn + filesystem" where
  "remove fs filename =
     (if remove_refused fs filename \<or> nodes fs filename = None then Inl OSError
      else Inr (fs\<lparr>nodes := (nodes fs)(filename := None)\<rparr>))"

section \<open>What a run shows\<close>

datatype level = Info | Warning | Error | Success

text \<open>A notice is a call of \<^verbatim>\<open>st.info\<close>, \<^verbatim>\<open>st.warning\<close>, \<^verbatim>\<open>st.error\<close> or
  \<^verbatim>\<open>st.success\<close>: the fixed part of its message and the exception formatted into it.\<close>

type_synonym notice = "level \<times> string \<times> exn option"

section \<open>Utility functions\<close>

definition save_history :: "real \<Rightarrow> filesystem \<Rightarrow> json \<Rightarrow> string \<Rightarrow> filesystem \<times> notice list" where
  "save_history now fs history filename =
     (case write_json fs filename
             (JObj [(lit ''saved_at'', JNum now), (lit ''history'', history)]) of
        (fs', Some e) \<Rightarrow> (fs', [(Error, ''Could not save chat: '', Some e)])
      | (fs', None) \<Rightarrow> (fs', []))"

definition load_history :: "filesystem \<Rightarrow> string \<Rightarrow> json \<times> notice list" where
  "load_history fs filename =
     (if \<not> path_exists fs filename then (JArr [], [])
      else case (case read_json fs filename of
                   Inl e \<Rightarrow> Inl e
                 | Inr data \<Rightarrow> py_get data (lit ''history'') (JArr [])) of
             Inl e \<Rightarrow> (JArr [], [(Warning, ''Could not load chat: '', Some e)])
           | Inr h \<Rightarrow> (h, []))"

text \<open>\<^verbatim>\<open>append_message\<close> builds the dict of one turn and appends it to the list it is
  given; only a list has \<^verbatim>\<open>append\<close>. The clock reading is \<^verbatim>\<open>time.time()\<close>.\<close>

definition turn :: "str \<Rightarrow> str \<Rightarrow> real \<Rightarrow> json" where
  "turn role txt now =
     JObj [(lit ''role'', JStr role), (lit ''text'', JStr txt), (lit ''ts'', JNum now)]"

fun append_message :: "json \<Rightarrow> str \<Rightarrow> str \<Rightarrow> real \<Rightarrow> exn + json" where
  "append_message (JArr hs) role txt now = Inr (JArr (hs @ [turn role txt now]))"
| "append_message _ role txt now = Inl AttributeError"

text \<open>
  \<^verbatim>\<open>render_chat\<close>, as far as it can end the run: what it draws (the name of the
  speaker, the formatted time and the text of each message) is not recorded.
  \<^verbatim>\<open>time.localtime\<close> takes a number (\<^verbatim>\<open>None\<close> stands for the present time, a
  boolean is a number), raises \<^verbatim>\<open>TypeError\<close> on anything else, and raises on a
  number the platform cannot convert; which numbers those are is given by \<open>fails\<close>.
\<close>

fun localtime :: "(real \<Rightarrow> bool) \<Rightarrow> json \<Rightarrow> exn option" where
  "localtime fails (JNum x) = (if fails x then Some OverflowError else None)"
| "localtime fails (JBool b) = (if fails (if b then 1 else 0) then Some OverflowError else None)"
| "localtime fails JNull = None"
| "localtime fails _ = Some TypeError"

definition render_message :: "(real \<Rightarrow> bool) \<Rightarrow> json \<Rightarrow> exn option" where
  "render_message fails msg =
     (case py_get msg (lit ''role'') (JStr (lit ''user'')) of
        Inl e \<Rightarrow> Some e
      | Inr role \<Rightarrow>
     (case py_get msg (lit ''text'') (JStr []) of
        Inl e \<Rightarrow> Some e
      | Inr txt \<Rightarrow>
     (case py_get msg (lit ''ts'') (JNum 0) of
        Inl e \<Rightarrow> Some e
      | Inr ts \<Rightarrow> localtime fails ts)))"

fun render_messages :: "(real \<Rightarrow> bool) \<Rightarrow> json list \<Rightarrow> exn option" where
  "render_messages fails [] = None"
| "render_messages fails (msg # msgs) =
     (case render_message fails msg of
        Some e \<Rightarrow> Some e
      | None \<Rightarrow> render_messages fails msgs)"

definition render_chat :: "(real \<Rightarrow> bool) \<Rightarrow> json \<Rightarrow> str \<Rightarrow> exn + notice list" where
  "render_chat fails history persona_name =
     (if \<not> truthy history
      then Inr [(Info, ''No messages yet. Type something below to start!'', None)]
      else case py_iter history of
             Inl e \<Rightarrow> Inl e
           | Inr msgs \<Rightarrow> (case render_messages fails msgs of
                           Some e \<Rightarrow> Inl e
                         | None \<Rightarrow> Inr []))"

section \<open>The session and one run of the script\<close>

text \<open>
  The state that outlives a run: the entry \<^verbatim>\<open>history\<close> of \<^verbatim>\<open>st.session_state\<close>
  (absent in a fresh session) and the disk.
\<close>

record world =
  history :: "json option"
  disk :: filesystem

text \<open>The answer of \<^verbatim>\<open>client.chat.completions.create\<close>: it raises, or it returns
  choices, each with a message whose content is a string or \<^verbatim>\<open>None\<close>.\<close>

datatype completion = Raises exn | Choices "str option list"

text \<open>
  What one run reads from outside the session: what the user has set on the widgets and
  the three buttons, the answer of the remote service, the reading of
  \<^verbatim>\<open>time.time()\<close> at each place that calls it, the numbers \<^verbatim>\<open>time.localtime\<close>
  fails on, and the exception \<^verbatim>\<open>OpenAI(api_key=...)\<close> raises, if it raises (it does
  when the environment gives no key).
\<close>

record run_input =
  model :: str
  temperature :: real
  max_tokens :: int
  persist_to_disk :: bool
  show_raw :: bool
  persona_key :: persona_key
  user_input :: str
  send :: bool
  clear :: bool
  export :: bool
  reply :: completion
  t_user :: real
  t_assistant :: real
  t_saved :: real
  t_exported :: real
  localtime_fails :: "real \<Rightarrow> bool"
  client_raises :: "exn option"

record request =
  req_model :: str
  req_messages :: "json list"
  req_temperature :: real
  req_max_tokens :: int

text \<open>
  What a run leaves: the state, the notices shown, the requests sent to the remote
  service, the data behind the download button, whether \<^verbatim>\<open>st.rerun()\<close> ended the
  run, and the exception that ended it when one was not caught.
\<close>

record outcome =
  after :: world
  notices :: "notice list"
  requests :: "request list"
  download :: "json option"
  rerun :: bool
  raised :: "exn option"

definition idle :: "world \<Rightarrow> outcome" where
  "idle w = \<lparr>after = w, notices = [], requests = [], download = None, rerun = False,
              raised = None\<rparr>"

text \<open>
  Lines 94 to 126, the widgets. In the first run of a session no widget has been set
  and no button pressed, so each returns its default: the first option of a select box,
  the \<^verbatim>\<open>value\<close> of a slider or check box, the empty text, \<^verbatim>\<open>False\<close> for a
  button. The first run is the one that finds no history in the session: line 110 puts
  one there and nothing takes it away.
\<close>

definition defaults :: "run_input \<Rightarrow> run_input" where
  "defaults i = i\<lparr>model := DEFAULT_MODEL, temperature := 13 / 20, max_tokens := 512,
                  persist_to_disk := False, show_raw := False, persona_key := RoastBot,
                  user_input := [], send := False, clear := False, export := False\<rparr>"

definition widgets :: "world \<Rightarrow> run_input \<Rightarrow> run_input" where
  "widgets w i = (if history w = None then defaults i else i)"

text \<open>Lines 109 and 110: the history is initialised when the session has none.\<close>

definition init_history :: "run_input \<Rightarrow> world \<Rightarrow> outcome" where
  "init_history i w =
     (case history w of
        Some h \<Rightarrow> idle w
      | None \<Rightarrow>
          if persist_to_disk i
          then (case load_history (disk w) PERSIST_FILE of
                  (h, ns) \<Rightarrow> (idle (w\<lparr>history := Some h\<rparr>))\<lparr>notices := ns\<rparr>)
          else idle (w\<lparr>history := Some (JArr [])\<rparr>))"

text \<open>Lines 114 to 116, outside every \<^verbatim>\<open>try\<close>: an exception of
  \<^verbatim>\<open>render_chat\<close> ends the run; \<^verbatim>\<open>st.json\<close> only draws.\<close>

definition show_conversation :: "run_input \<Rightarrow> world \<Rightarrow> outcome" where
  "show_conversation i w =
     (case history w of
        None \<Rightarrow> (idle w)\<lparr>raised := Some AttributeError\<rparr>
      | Some h \<Rightarrow>
          (case render_chat (localtime_fails i) h (name (PERSONAS (persona_key i))) of
             Inl e \<Rightarrow> (idle w)\<lparr>raised := Some e\<rparr>
           | Inr ns \<Rightarrow> (idle w)\<lparr>notices := ns\<rparr>))"

text \<open>Line 129, outside every \<^verbatim>\<open>try\<close> as well.\<close>

definition make_client :: "run_input \<Rightarrow> world \<Rightarrow> outcome" where
  "make_client i w = (idle w)\<lparr>raised := client_raises i\<rparr>"

text \<open>The prompt: the system message, then one message for each of the last 24 entries.\<close>

definition to_message :: "json \<Rightarrow> exn + json" where
  "to_message h =
     (case py_item h (lit ''role'') of
        Inl e \<Rightarrow> Inl e
      | Inr r \<Rightarrow> (case py_item h (lit ''text'') of
                   Inl e \<Rightarrow> Inl e
                 | Inr t \<Rightarrow> Inr (JObj [(lit ''role'', r), (lit ''content'', t)])))"

fun add_messages :: "json list \<Rightarrow> json list \<Rightarrow> exn + json list" where
  "add_messages messages [] = Inr messages"
| "add_messages messages (h # hs) =
     (case to_message h of
        Inl e \<Rightarrow> Inl e
      | Inr m \<Rightarrow> add_messages (messages @ [m]) hs)"

definition system_message :: "persona \<Rightarrow> json" where
  "system_message p =
     JObj [(lit ''role'', JStr (lit ''system'')), (lit ''content'', JStr (system p))]"

fun build_messages :: "persona \<Rightarrow> json \<Rightarrow> exn + json list" where
  "build_messages p (JArr hs) = add_messages [system_message p] (py_last 24 hs)"
| "build_messages p _ = Inl TypeError"

text \<open>\<^verbatim>\<open>response.choices[0].message.content.strip()\<close>\<close>

fun ai_text :: "completion \<Rightarrow> exn + str" where
  "ai_text (Raises e) = Inl e"
| "ai_text (Choices []) = Inl IndexError"
| "ai_text (Choices (None # cs)) = Inl AttributeError"
| "ai_text (Choices (Some c # cs)) = Inr (strip c)"

text \<open>
  The Send handler. The list in the session is changed in place, so what was appended
  before an exception stays appended; \<open>failed\<close> is the \<^verbatim>\<open>except\<close> branch.
\<close>

definition failed :: "world \<Rightarrow> request list \<Rightarrow> exn \<Rightarrow> outcome" where
  "failed w rs e = (idle w)\<lparr>notices := [(Error, ''Error generating response: '', Some e)],
                           requests := rs\<rparr>"

definition send_handler :: "run_input \<Rightarrow> world \<Rightarrow> outcome" where
  "send_handler i w =
     (let inp = strip (user_input i) in
      if inp = [] then (idle w)\<lparr>notices := [(Warning, ''Please type a message!'', None)]\<rparr>
      else
        case history w of
          None \<Rightarrow> failed w [] AttributeError
        | Some h0 \<Rightarrow>
        (case append_message h0 (lit ''user'') inp (t_user i) of
          Inl e \<Rightarrow> failed w [] e
        | Inr h1 \<Rightarrow>
        let w1 = w\<lparr>history := Some h1\<rparr> in
        (case build_messages (PERSONAS (persona_key i)) h1 of
          Inl e \<Rightarrow> failed w1 [] e
        | Inr messages \<Rightarrow>
        let r = \<lparr>req_model = model i, req_messages = messages,
                 req_temperature = temperature i, req_max_tokens = max_tokens i\<rparr> in
        (case ai_text (reply i) of
          Inl e \<Rightarrow> failed w1 [r] e
        | Inr a \<Rightarrow>
        (case append_message h1 (lit ''assistant'') a (t_assistant i) of
          Inl e \<Rightarrow> failed w1 [r] e
        | Inr h2 \<Rightarrow>
        let w2 = w1\<lparr>history := Some h2\<rparr> in
        if persist_to_disk i
        then (case save_history (t_saved i) (disk w2) h2 PERSIST_FILE of
                (fs, ns) \<Rightarrow> (idle (w2\<lparr>disk := fs\<rparr>))\<lparr>notices := ns, requests := [r],
                                                       rerun := True\<rparr>)
        else (idle w2)\<lparr>requests := [r], rerun := True\<rparr>)))))"

text \<open>The Clear handler; a refused \<^verbatim>\<open>os.remove\<close> is not caught.\<close>

definition clear_handler :: "run_input \<Rightarrow> world \<Rightarrow> outcome" where
  "clear_handler i w =
     (let w1 = w\<lparr>history := Some (JArr [])\<rparr> in
      if persist_to_disk i \<and> path_exists (disk w1) PERSIST_FILE
      then (case remove (disk w1) PERSIST_FILE of
              Inl e \<Rightarrow> (idle w1)\<lparr>raised := Some e\<rparr>
            | Inr fs \<Rightarrow> (idle (w1\<lparr>disk := fs\<rparr>))\<lparr>notices := [(Success, ''Chat cleared.'', None)],
                                                  rerun := True\<rparr>)
      else (idle w1)\<lparr>notices := [(Success, ''Chat cleared.'', None)], rerun := True\<rparr>)"

text \<open>The Export handler; the download is the value that \<^verbatim>\<open>json.dumps\<close> writes out.\<close>

definition export_handler :: "run_input \<Rightarrow> world \<Rightarrow> outcome" where
  "export_handler i w =
     (case history w of
        None \<Rightarrow> (idle w)\<lparr>raised := Some AttributeError\<rparr>
      | Some h \<Rightarrow>
          (idle w)\<lparr>download := Some (JObj [(lit ''exported_at'', JNum (t_exported i)),
                                           (lit ''persona'', JStr (key_name (persona_key i))),
                                           (lit ''model'', JStr (model i)),
                                           (lit ''history'', h)])\<rparr>)"

text \<open>
  Statements of the script run one after the other until \<^verbatim>\<open>st.rerun()\<close> or an
  uncaught exception ends the run.
\<close>

definition and_then :: "outcome \<Rightarrow> (world \<Rightarrow> outcome) \<Rightarrow> outcome" where
  "and_then out f =
     (if rerun out \<or> raised out \<noteq> None then out
      else let out' = f (after out) in
        out'\<lparr>notices := notices out @ notices out',
             requests := requests out @ requests out',
             download := (case download out' of None \<Rightarrow> download out | Some d \<Rightarrow> Some d)\<rparr>)"

text \<open>
  One run of the script: the widgets, the history of the session, the conversation on
  the page, the client, and the three handlers. What the page draws is not recorded.
\<close>

definition script :: "run_input \<Rightarrow> world \<Rightarrow> outcome" where
  "script i w =
     and_then (and_then (and_then (and_then (and_then (init_history i w)
       (show_conversation i))
       (make_client i))
       (\<lambda>w. if send i then send_handler i w else idle w))
       (\<lambda>w. if clear i then clear_handler i w else idle w))
       (\<lambda>w. if export i then export_handler i w else idle w)"

definition run :: "run_input \<Rightarrow> world \<Rightarrow> outcome" where
  "run i w = script (widgets w i) w"

fun runs :: "run_input list \<Rightarrow> world \<Rightarrow> world" where
  "runs [] w = w"
| "runs (i # is) w = runs is (after (run i w))"

text \<open>A sequence of Send actions: the Send handler, once for each input.\<close>

fun sends :: "run_input list \<Rightarrow> world \<Rightarrow> world" where
  "sends [] w = w"
| "sends (i # is) w = sends is (after (send_handler i w))"

section \<open>Conversations\<close>

text \<open>
  A turn has a role, a text and a timestamp, and a conversation is a list of turns. In
  the session and in the persisted file a turn is the object
  \<^verbatim>\<open>{"role": ..., "text": ..., "ts": ...}\<close>.
\<close>

record turn_rec =
  turn_role :: str
  turn_text :: str
  turn_ts :: real

definition entry :: "turn_rec \<Rightarrow> json" where
  "entry t = JObj [(lit ''role'', JStr (turn_role t)), (lit ''text'', JStr (turn_text t)),
                   (lit ''ts'', JNum (turn_ts t))]"

text \<open>The message the prompt carries for a turn: its role and its text.\<close>

definition message_of :: "turn_rec \<Rightarrow> json" where
  "message_of t =
     JObj [(lit ''role'', JStr (turn_role t)), (lit ''content'', JStr (turn_text t))]"

text \<open>
  A Send succeeds when the remote call hands back a first choice with a content. The
  turns a Send with a non-empty input is expected to add: the user's turn, and the
  assistant's turn with the trimmed reply when the Send succeeds.
\<close>

fun delivered :: "run_input \<Rightarrow> bool" where
  "delivered i = (case reply i of Choices (Some c # cs) \<Rightarrow> True | _ \<Rightarrow> False)"

definition user_turn :: "run_input \<Rightarrow> turn_rec" where
  "user_turn i =
     \<lparr>turn_role = lit ''user'', turn_text = strip (user_input i), turn_ts = t_user i\<rparr>"

definition exchange :: "run_input \<Rightarrow> turn_rec list" where
  "exchange i =
     user_turn i #
     (case reply i of
        Choices (Some c # cs) \<Rightarrow>
          [\<lparr>turn_role = lit ''assistant'', turn_text = strip c, turn_ts = t_assistant i\<rparr>]
      | _ \<Rightarrow> [])"

definition typed :: "run_input \<Rightarrow> bool" where
  "typed i = (strip (user_input i) \<noteq> [])"

text \<open>
  The timestamp of an entry is the number under its key \<^verbatim>\<open>"ts"\<close>. A history is
  chronological when it is a list, every entry has a timestamp, and no entry is stamped
  later than an entry after it.
\<close>

fun stamp :: "json \<Rightarrow> real option" where
  "stamp (JObj kvs) = (case map_of kvs (lit ''ts'') of Some (JNum t) \<Rightarrow> Some t | _ \<Rightarrow> None)"
| "stamp _ = None"

definition no_later :: "json \<Rightarrow> json \<Rightarrow> bool" where
  "no_later a b = (case stamp a of
                     None \<Rightarrow> False
                   | Some x \<Rightarrow> (case stamp b of None \<Rightarrow> False | Some y \<Rightarrow> x \<le> y))"

definition stamped_by :: "real \<Rightarrow> json \<Rightarrow> bool" where
  "stamped_by t h = (case stamp h of None \<Rightarrow> False | Some x \<Rightarrow> x \<le> t)"

fun chronological :: "json \<Rightarrow> bool" where
  "chronological (JArr hs) = (list_all (\<lambda>h. stamp h \<noteq> None) hs \<and> sorted_wrt no_later hs)"
| "chronological _ = False"

text \<open>Chronological, and no entry stamped later than the reading \<open>t\<close> of the clock.\<close>

fun chronological_until :: "real \<Rightarrow> json \<Rightarrow> bool" where
  "chronological_until t (JArr hs) = (chronological (JArr hs) \<and> list_all (stamped_by t) hs)"
| "chronological_until t _ = False"

text \<open>The readings of the clock never go back, from the reading \<open>t\<close> on.\<close>

fun clock_ok :: "real \<Rightarrow> run_input list \<Rightarrow> bool" where
  "clock_ok t [] = True"
| "clock_ok t (i # is) = (t \<le> t_user i \<and> t_user i \<le> t_assistant i \<and> clock_ok (t_assistant i) is)"

text \<open>A world whose session has a history that is chronological up to the reading \<open>t\<close>.\<close>

definition settled :: "real \<Rightarrow> world \<Rightarrow> bool" where
  "settled t w = (case history w of None \<Rightarrow> False | Some h \<Rightarrow> chronological_until t h)"

text \<open>Whether a node is a file that \<^verbatim>\<open>json.load\<close> reads as a JSON object.\<close>

fun holds_object :: "node \<Rightarrow> bool" where
  "holds_object (Document (JObj kvs)) = True"
| "holds_object _ = False"

section \<open>Sample inputs\<close>

definition plain_disk :: filesystem where
  "plain_disk = \<lparr>nodes = Map.empty, write_refused = (\<lambda>p. False), remove_refused = (\<lambda>p. False)\<rparr>"

definition disk_with :: "node \<Rightarrow> filesystem" where
  "disk_with n = plain_disk\<lparr>nodes := [PERSIST_FILE \<mapsto> n]\<rparr>"

definition greeting :: json where
  "greeting = JArr
     [JObj [(lit ''role'', JStr (lit ''user'')), (lit ''text'', JStr (lit ''hi'')),
            (lit ''ts'', JNum 1)],
      JObj [(lit ''role'', JStr (lit ''assistant'')), (lit ''text'', JStr (lit ''hello'')),
            (lit ''ts'', JNum 2)]]"

definition greeting_turns :: "turn_rec list" where
  "greeting_turns =
     [\<lparr>turn_role = lit ''user'', turn_text = lit ''hi'', turn_ts = 1\<rparr>,
      \<lparr>turn_role = lit ''assistant'', turn_text = lit ''hello'', turn_ts = 2\<rparr>]"

definition press_nothing :: run_input where
  "press_nothing = \<lparr>model = lit ''gpt-4'', temperature = 1 / 2, max_tokens = 256,
     persist_to_disk = True, show_raw = False, persona_key = EmojiBot, user_input = [],
     send = False, clear = False, export = False, reply = Raises RemoteError,
     t_user = 3, t_assistant = 4, t_saved = 5, t_exported = 6,
     localtime_fails = (\<lambda>x. False), client_raises = None\<rparr>"

definition backdated :: json where
  "backdated = JArr
     [JObj [(lit ''role'', JStr (lit ''user'')), (lit ''text'', JStr (lit ''late'')),
            (lit ''ts'', JNum 5)],
      JObj [(lit ''role'', JStr (lit ''user'')), (lit ''text'', JStr (lit ''early'')),
            (lit ''ts'', JNum 3)]]"

definition snapshot :: json where
  "snapshot = JObj [(lit ''saved_at'', JNum 2), (lit ''history'', greeting)]"

definition saved_world :: world where
  "saved_world = \<lparr>history = Some greeting, disk = disk_with (Document snapshot)\<rparr>"

definition fresh_world :: world where
  "fresh_world =
     \<lparr>history = None,
      disk = disk_with (Document (JObj [(lit ''saved_at'', JNum 6),
                                        (lit ''history'', backdated)]))\<rparr>"

definition blank_send :: run_input where
  "blank_send = press_nothing\<lparr>user_input := [32, 9, 12288], send := True\<rparr>"

definition chat :: run_input where
  "chat = press_nothing\<lparr>user_input := lit '' how are you? '', send := True,
     reply := Choices [Some (lit ''fine '')]\<rparr>"

definition chat_down :: run_input where
  "chat_down = press_nothing\<lparr>user_input := lit ''still there?'', send := True, t_user := 7,
     t_assistant := 8\<rparr>"

text \<open>A reply that ends in half of a surrogate pair, as a turn of a history.\<close>

definition torn :: json where
  "torn = JArr [JObj [(lit ''role'', JStr (lit ''assistant'')), (lit ''text'', JStr [111, 107, 55357]),
                      (lit ''ts'', JNum 1)]]"

text \<open>Thirty turns, the turn \<open>n\<close> stamped \<open>n\<close> with the one-letter text \<open>n\<close>.\<close>

definition numbered :: "nat \<Rightarrow> turn_rec" where
  "numbered n = \<lparr>turn_role = lit ''user'', turn_text = [n], turn_ts = real n\<rparr>"

definition thirty :: world where
  "thirty = \<lparr>history = Some (JArr (map (\<lambda>n. entry (numbered n)) [0..<30])), disk = plain_disk\<rparr>"

definition open_page :: run_input where
  "open_page = press_nothing\<lparr>t_user := 1, t_assistant := 2\<rparr>"

section \<open>Persistence\<close>

text \<open>
  C6: for every path at which no file exists, \<^verbatim>\<open>load_history\<close> returns the empty
  conversation; it shows no notice and raises nothing.
\<close>

theorem load_history_missing_file:
  "nodes fs filename = None \<Longrightarrow> load_history fs filename = (JArr [], [])"
  by (simp add: load_history_def path_exists_def)

theorem load_history_missing_file_witness:
  "nodes plain_disk PERSIST_FILE = None \<and> load_history plain_disk PERSIST_FILE = (JArr [], [])"
  using load_history_missing_file [of plain_disk PERSIST_FILE]
  by (simp add: plain_disk_def)

text \<open>
  C10: for every file whose content parses as a JSON object, \<^verbatim>\<open>load_history\<close>
  returns the value under the key \<^verbatim>\<open>"history"\<close> as it is, whatever its shape, and
  the empty list when the object has no such key; no notice is shown.
\<close>

theorem load_history_object_verbatim:
  "nodes fs filename = Some (Document (JObj kvs)) \<Longrightarrow>
   load_history fs filename =
     ((case map_of kvs (lit ''history'') of None \<Rightarrow> JArr [] | Some v \<Rightarrow> v), [])"
  by (simp add: load_history_def path_exists_def read_json_def)

theorem load_history_object_verbatim_witness:
  "nodes (disk_with (Document (JObj [(lit ''history'', JNum 7)]))) PERSIST_FILE
     = Some (Document (JObj [(lit ''history'', JNum 7)])) \<and>
   load_history (disk_with (Document (JObj [(lit ''history'', JNum 7)]))) PERSIST_FILE
     = (JNum 7, []) \<and>
   nodes (disk_with (Document (JObj [(lit ''saved_at'', JNum 7)]))) PERSIST_FILE
     = Some (Document (JObj [(lit ''saved_at'', JNum 7)])) \<and>
   load_history (disk_with (Document (JObj [(lit ''saved_at'', JNum 7)]))) PERSIST_FILE
     = (JArr [], [])"
  using load_history_object_verbatim
    [of "disk_with (Document (JObj [(lit ''history'', JNum 7)]))" PERSIST_FILE
        "[(lit ''history'', JNum 7)]"]
    load_history_object_verbatim
    [of "disk_with (Document (JObj [(lit ''saved_at'', JNum 7)]))" PERSIST_FILE
        "[(lit ''saved_at'', JNum 7)]"]
  by (simp add: disk_with_def plain_disk_def)

text \<open>
  C2, as stated: saving any conversation and loading the same path gives it back. It
  fails on a conversation with a text that holds a lone surrogate, on a disk that
  refuses nothing: the write raises after the file was emptied, \<^verbatim>\<open>save_history\<close>
  shows the error, and loading then gives the empty conversation with a warning.
\<close>

theorem save_then_load_loses_torn_text:
  "snd (save_history 3 plain_disk torn PERSIST_FILE)
     = [(Error, ''Could not save chat: '', Some UnicodeEncodeError)] \<and>
   load_history (fst (save_history 3 plain_disk torn PERSIST_FILE)) PERSIST_FILE
     = (JArr [], [(Warning, ''Could not load chat: '', Some JSONDecodeError)]) \<and>
   torn \<noteq> JArr []"
  by (simp add: load_history_def save_history_def write_json_def path_exists_def
      read_json_def plain_disk_def torn_def utf8_ok_def)

text \<open>
  C2, amended: saving a conversation and then loading the same path gives the
  conversation back exactly (every JSON value, the empty list included), when UTF-8 can
  encode its strings and the file can be opened for writing; neither step shows a
  notice.
\<close>

theorem save_then_load_roundtrip:
  "\<not> write_refused fs filename \<Longrightarrow> encodable c \<Longrightarrow>
   load_history (fst (save_history now fs c filename)) filename = (c, []) \<and>
   snd (save_history now fs c filename) = []"
  by (simp add: load_history_def save_history_def write_json_def path_exists_def
      read_json_def utf8_ok_def)

theorem save_then_load_roundtrip_witness:
  "\<not> write_refused plain_disk PERSIST_FILE \<and> encodable greeting \<and> encodable (JArr []) \<and>
   load_history (fst (save_history 3 plain_disk greeting PERSIST_FILE)) PERSIST_FILE
     = (greeting, []) \<and>
   load_history (fst (save_history 3 plain_disk (JArr []) PERSIST_FILE)) PERSIST_FILE
     = (JArr [], [])"
  using save_then_load_roundtrip [of plain_disk PERSIST_FILE greeting 3]
    save_then_load_roundtrip [of plain_disk PERSIST_FILE "JArr []" 3]
  by (simp add: plain_disk_def greeting_def utf8_ok_def)

text \<open>
  C5, as stated: every file that is not the expected snapshot loads as the empty
  conversation with a warning. It fails on a file holding the object
  \<^verbatim>\<open>{"history": "corrupt"}\<close>: the string is returned and no warning is shown.
\<close>

theorem load_history_unexpected_object:
  "load_history (disk_with (Document (JObj [(lit ''history'', JStr (lit ''corrupt''))])))
     PERSIST_FILE
     = (JStr (lit ''corrupt''), [])"
  by (simp add: load_history_def path_exists_def read_json_def disk_with_def plain_disk_def)

text \<open>
  C5, amended: for every existing file that cannot be read, does not parse as JSON, or
  parses to a value that is not an object, \<^verbatim>\<open>load_history\<close> returns the empty
  conversation and shows exactly one notice, a warning. The function has no result but
  these, so nothing is raised past it.
\<close>

theorem load_history_fails_soft:
  "nodes fs filename = Some n \<Longrightarrow> \<not> holds_object n \<Longrightarrow>
   fst (load_history fs filename) = JArr [] \<and>
   map fst (snd (load_history fs filename)) = [Warning] \<and>
   map (fst \<circ> snd) (snd (load_history fs filename)) = [''Could not load chat: '']"
proof (cases n)
  case Unreadable
  assume "nodes fs filename = Some n"
  with Unreadable show ?thesis
    by (simp add: load_history_def path_exists_def read_json_def)
next
  case Malformed
  assume "nodes fs filename = Some n"
  with Malformed show ?thesis
    by (simp add: load_history_def path_exists_def read_json_def)
next
  case (Document j)
  assume "nodes fs filename = Some n" and "\<not> holds_object n"
  with Document show ?thesis
    by (cases j) (simp_all add: load_history_def path_exists_def read_json_def)
qed

theorem load_history_fails_soft_witness:
  "nodes (disk_with Malformed) PERSIST_FILE = Some Malformed \<and> \<not> holds_object Malformed \<and>
   fst (load_history (disk_with Malformed) PERSIST_FILE) = JArr [] \<and>
   map fst (snd (load_history (disk_with Malformed) PERSIST_FILE)) = [Warning]"
  using load_history_fails_soft [of "disk_with Malformed" PERSIST_FILE Malformed]
  by (simp add: disk_with_def plain_disk_def)

section \<open>Clear, Export and the empty Send\<close>

text \<open>
  C4: Clear leaves the empty conversation whatever the conversation was, and a second
  Clear right after it changes nothing; with persistence switched on the persisted file
  is gone afterwards, unless the operating system refuses to remove it.
\<close>

theorem clear_empties_and_is_idempotent:
  "history (after (clear_handler i w)) = Some (JArr []) \<and>
   after (clear_handler i (after (clear_handler i w))) = after (clear_handler i w) \<and>
   (persist_to_disk i \<and> \<not> remove_refused (disk w) PERSIST_FILE \<longrightarrow>
      nodes (disk (after (clear_handler i w))) PERSIST_FILE = None)"
proof (intro conjI)
  show "history (after (clear_handler i w)) = Some (JArr [])"
    by (simp add: clear_handler_def idle_def Let_def split: sum.splits)
  show "after (clear_handler i (after (clear_handler i w))) = after (clear_handler i w)"
    by (auto simp add: clear_handler_def idle_def Let_def remove_def path_exists_def
        split: sum.splits)
  show "persist_to_disk i \<and> \<not> remove_refused (disk w) PERSIST_FILE \<longrightarrow>
      nodes (disk (after (clear_handler i w))) PERSIST_FILE = None"
    by (auto simp add: clear_handler_def idle_def Let_def remove_def path_exists_def
        split: sum.splits)
qed

theorem clear_empties_and_is_idempotent_witness:
  "persist_to_disk press_nothing \<and> \<not> remove_refused (disk saved_world) PERSIST_FILE \<and>
   nodes (disk saved_world) PERSIST_FILE = Some (Document snapshot) \<and>
   history (after (clear_handler press_nothing saved_world)) = Some (JArr []) \<and>
   nodes (disk (after (clear_handler press_nothing saved_world))) PERSIST_FILE = None"
  using clear_empties_and_is_idempotent [of press_nothing saved_world]
  by (simp add: press_nothing_def saved_world_def disk_with_def plain_disk_def)

text \<open>
  C7: whatever the conversation and the settings (the persistence switch among them),
  the exported data carries the history of the session as it is, entry for entry,
  together with the persona id, the model id and the reading of the clock; Export leaves
  the session and the disk as they were.
\<close>

theorem export_carries_history:
  "history w = Some h \<Longrightarrow>
   download (export_handler i w) =
     Some (JObj [(lit ''exported_at'', JNum (t_exported i)),
                 (lit ''persona'', JStr (key_name (persona_key i))),
                 (lit ''model'', JStr (model i)),
                 (lit ''history'', h)]) \<and>
   after (export_handler i w) = w"
  by (simp add: export_handler_def idle_def)

theorem export_carries_history_witness:
  "history saved_world = Some greeting \<and>
   download (export_handler press_nothing saved_world) =
     Some (JObj [(lit ''exported_at'', JNum 6), (lit ''persona'', JStr (lit ''EmojiBot'')),
                 (lit ''model'', JStr (lit ''gpt-4'')), (lit ''history'', greeting)]) \<and>
   after (export_handler press_nothing saved_world) = saved_world"
  using export_carries_history [of saved_world greeting press_nothing]
  by (simp add: saved_world_def press_nothing_def)

text \<open>
  C8: a Send whose input is empty or only whitespace leaves the session and the disk as
  they were, sends no request and shows one warning.
\<close>

theorem send_blank_changes_nothing:
  "strip (user_input i) = [] \<Longrightarrow>
   send_handler i w =
     \<lparr>after = w, notices = [(Warning, ''Please type a message!'', None)], requests = [],
      download = None, rerun = False, raised = None\<rparr>"
  by (simp add: send_handler_def idle_def)

theorem send_blank_changes_nothing_witness:
  "strip (user_input blank_send) = [] \<and>
   after (send_handler blank_send saved_world) = saved_world \<and>
   requests (send_handler blank_send saved_world) = []"
  using send_blank_changes_nothing [of blank_send saved_world]
  by (simp add: blank_send_def press_nothing_def strip_def isspace_def)

section \<open>Send\<close>

lemma append_entry:
  "append_message (JArr (map entry c)) r x t =
     Inr (JArr (map entry (c @ [\<lparr>turn_role = r, turn_text = x, turn_ts = t\<rparr>])))"
  by (simp add: entry_def turn_def)

lemma to_message_entry: "to_message (entry t) = Inr (message_of t)"
  by (simp add: to_message_def entry_def message_of_def)

lemma add_messages_entry:
  "add_messages acc (map entry c) = Inr (acc @ map message_of c)"
  by (induction c arbitrary: acc) (simp_all add: to_message_entry)

lemma build_entry:
  "build_messages p (JArr (map entry c)) =
     Inr (JObj [(lit ''role'', JStr (lit ''system'')), (lit ''content'', JStr (system p))] #
          map message_of (drop (length c - 24) c))"
  by (simp add: py_last_def drop_map add_messages_entry system_message_def)

lemma send_requests:
  assumes "history w = Some (JArr (map entry c))" and "strip (user_input i) \<noteq> []"
  shows "requests (send_handler i w) =
     [\<lparr>req_model = model i,
       req_messages =
         JObj [(lit ''role'', JStr (lit ''system'')),
               (lit ''content'', JStr (system (PERSONAS (persona_key i))))] #
         map message_of (drop (length (c @ [user_turn i]) - 24) (c @ [user_turn i])),
       req_temperature = temperature i, req_max_tokens = max_tokens i\<rparr>]"
  using assms
  by (simp add: send_handler_def Let_def append_entry py_last_def drop_map add_messages_entry system_message_def user_turn_def failed_def
      idle_def del: map_append append_message.simps split: sum.splits prod.splits)

lemma send_history:
  assumes "history w = Some (JArr (map entry c))" and "strip (user_input i) \<noteq> []"
  shows "history (after (send_handler i w)) = Some (JArr (map entry (c @ exchange i)))"
  using assms
  by (cases "reply i" rule: ai_text.cases)
     (simp_all add: send_handler_def Let_def append_entry py_last_def drop_map add_messages_entry system_message_def user_turn_def
        exchange_def failed_def idle_def del: map_append append_message.simps split: prod.splits)

lemma send_rerun:
  assumes "history w = Some (JArr (map entry c))" and "strip (user_input i) \<noteq> []"
    and "delivered i"
  shows "rerun (send_handler i w)"
  using assms
  by (cases "reply i" rule: ai_text.cases)
     (simp_all add: send_handler_def Let_def append_entry py_last_def drop_map add_messages_entry system_message_def idle_def
        del: map_append append_message.simps split: prod.splits)

lemma length_exchange: "length (exchange i) = (if delivered i then 2 else 1)"
  by (cases "reply i" rule: ai_text.cases) (simp_all add: exchange_def)

lemma length_concat_exchange:
  "length (concat (map exchange is)) =
     2 * length (filter delivered is) + length (filter (\<lambda>i. \<not> delivered i) is)"
  by (induction "is") (simp_all add: length_exchange del: delivered.simps)

lemma sends_history:
  assumes "history w = Some (JArr (map entry c))" and "list_all typed is"
  shows "history (sends is w) = Some (JArr (map entry (c @ concat (map exchange is))))"
  using assms
proof (induction "is" arbitrary: w c)
  case Nil
  then show ?case by simp
next
  case (Cons i "is")
  have sent: "history (after (send_handler i w)) = Some (JArr (map entry (c @ exchange i)))"
    using Cons.prems by (simp add: send_history typed_def)
  show ?case
    using Cons.IH [OF sent] Cons.prems(2) by simp
qed

text \<open>
  C1: through every sequence of Send actions whose inputs are not empty after trimming,
  on a conversation of turns, each Send appends the turn
  \<^verbatim>\<open>{"role": "user", "text": <trimmed input>, "ts": <clock>}\<close> and then, when the
  remote call delivers a reply, the turn
  \<^verbatim>\<open>{"role": "assistant", "text": <trimmed reply>, "ts": <clock>}\<close>; a Send whose
  remote call fails keeps the user's turn. The conversation grows by exactly 2 for each
  successful Send and by exactly 1 for each failed one.
\<close>

theorem send_sequence_lengths:
  assumes "history w = Some (JArr (map entry c))" and "list_all typed is"
  shows "history (sends is w) = Some (JArr (map entry (c @ concat (map exchange is)))) \<and>
         length (map entry (c @ concat (map exchange is))) =
           length (map entry c) + 2 * length (filter delivered is) +
           length (filter (\<lambda>i. \<not> delivered i) is)"
  using assms by (simp add: sends_history length_concat_exchange del: delivered.simps)

theorem send_sequence_lengths_witness:
  "history saved_world = Some (JArr (map entry greeting_turns)) \<and>
   list_all typed [chat, chat_down] \<and> delivered chat \<and> \<not> delivered chat_down \<and>
   history (sends [chat, chat_down] saved_world) = Some (JArr
     [JObj [(lit ''role'', JStr (lit ''user'')), (lit ''text'', JStr (lit ''hi'')),
            (lit ''ts'', JNum 1)],
      JObj [(lit ''role'', JStr (lit ''assistant'')), (lit ''text'', JStr (lit ''hello'')),
            (lit ''ts'', JNum 2)],
      JObj [(lit ''role'', JStr (lit ''user'')), (lit ''text'', JStr (lit ''how are you?'')),
            (lit ''ts'', JNum 3)],
      JObj [(lit ''role'', JStr (lit ''assistant'')), (lit ''text'', JStr (lit ''fine'')),
            (lit ''ts'', JNum 4)],
      JObj [(lit ''role'', JStr (lit ''user'')), (lit ''text'', JStr (lit ''still there?'')),
            (lit ''ts'', JNum 7)]])"
  using send_sequence_lengths [of saved_world greeting_turns "[chat, chat_down]"]
  by (simp add: saved_world_def greeting_def greeting_turns_def entry_def chat_def
      chat_down_def press_nothing_def strip_def isspace_def typed_def exchange_def
      user_turn_def)

text \<open>
  C9: on every Send with a non-empty input to a conversation of turns (so on every
  successful one), the one request sent carries the message
  \<^verbatim>\<open>{"role": "system", "content": <system prompt of the persona>}\<close> followed by the
  messages \<^verbatim>\<open>{"role": ..., "content": <text>}\<close> of the last 24 turns, the user's new
  turn included, in the order of the conversation: all turns when there are no more than
  24, and the conversation without its earliest turns otherwise. The prompt never has
  more than 25 messages, and a delivered reply ends the run with a rerun.
\<close>

theorem send_prompt_window:
  assumes "history w = Some (JArr (map entry c))" and "strip (user_input i) \<noteq> []"
  shows "requests (send_handler i w) =
           [\<lparr>req_model = model i,
             req_messages =
               JObj [(lit ''role'', JStr (lit ''system'')),
                     (lit ''content'', JStr (system (PERSONAS (persona_key i))))] #
               map message_of
                 (drop (length (c @ [user_turn i]) - 24) (c @ [user_turn i])),
             req_temperature = temperature i, req_max_tokens = max_tokens i\<rparr>] \<and>
         length (drop (length (c @ [user_turn i]) - 24) (c @ [user_turn i])) =
           min 24 (length c + 1) \<and>
         (delivered i \<longrightarrow> rerun (send_handler i w))"
proof (intro conjI)
  show "requests (send_handler i w) =
           [\<lparr>req_model = model i,
             req_messages =
               JObj [(lit ''role'', JStr (lit ''system'')),
                     (lit ''content'', JStr (system (PERSONAS (persona_key i))))] #
               map message_of
                 (drop (length (c @ [user_turn i]) - 24) (c @ [user_turn i])),
             req_temperature = temperature i, req_max_tokens = max_tokens i\<rparr>]"
    using assms by (rule send_requests)
  show "length (drop (length (c @ [user_turn i]) - 24) (c @ [user_turn i])) =
           min 24 (length c + 1)"
    by simp
  show "delivered i \<longrightarrow> rerun (send_handler i w)"
    using assms send_rerun by blast
qed

theorem send_prompt_window_witness:
  "history thirty = Some (JArr (map entry (map numbered [0..<30]))) \<and>
   strip (user_input chat) \<noteq> [] \<and> delivered chat \<and> rerun (send_handler chat thirty) \<and>
   requests (send_handler chat thirty) =
     [\<lparr>req_model = lit ''gpt-4'',
       req_messages =
         JObj [(lit ''role'', JStr (lit ''system'')),
               (lit ''content'', JStr (lit
                 (''You are EmojiBot. Translate messages mostly into emojis. '' @
                  ''You can add a short English note in parentheses if needed.'')))] #
         map (\<lambda>n. JObj [(lit ''role'', JStr (lit ''user'')), (lit ''content'', JStr [n])])
           [7..<30] @
         [JObj [(lit ''role'', JStr (lit ''user'')),
                (lit ''content'', JStr (lit ''how are you?''))]],
       req_temperature = 1 / 2, req_max_tokens = 256\<rparr>] \<and>
   length (req_messages (hd (requests (send_handler chat thirty)))) = 25 \<and>
   system (PERSONAS RoastBot) = lit
     (''You are RoastBot. Give short, witty, playful roasts. '' @
      ''If user asks for serious info, give it with a mild sarcastic touch.'') \<and>
   system (PERSONAS ShakespeareBot) = lit
     (''You are ShakespeareBot. Reply in Early Modern English style. '' @
      ''Use 'thee', 'thou', poetic phrasing, and a formal tone.'')"
  using send_prompt_window [of thirty "map numbered [0..<30]" chat]
  by (simp add: thirty_def chat_def press_nothing_def strip_def isspace_def
      numbered_def message_of_def user_turn_def entry_def drop_map)

section \<open>Timestamps\<close>

lemma stamp_turn: "stamp (turn r x t) = Some t"
  by (simp add: turn_def)

lemma stamped_by_mono: "stamped_by t h \<Longrightarrow> t \<le> t' \<Longrightarrow> stamped_by t' h"
  by (auto simp add: stamped_by_def split: option.splits)

lemma until_mono: "chronological_until t h \<Longrightarrow> t \<le> t' \<Longrightarrow> chronological_until t' h"
  by (cases h) (auto simp add: list_all_iff intro: stamped_by_mono)

lemma until_chronological: "chronological_until t h \<Longrightarrow> chronological h"
  by (cases h) simp_all

lemma stamped_no_later: "stamped_by t h \<Longrightarrow> no_later h (turn r x t)"
  by (auto simp add: stamped_by_def no_later_def stamp_turn split: option.splits)

text \<open>An append stamped with a reading no earlier than the last one keeps the order.\<close>

lemma until_append:
  assumes "chronological_until t h" and "t \<le> t'"
  shows "\<exists>h'. append_message h r x t' = Inr h' \<and> chronological_until t' h'"
proof (cases h)
  case (JArr hs)
  with assms have a: "list_all (\<lambda>h. stamp h \<noteq> None) hs" and b: "sorted_wrt no_later hs"
    and c: "list_all (stamped_by t) hs" by simp_all
  from c assms(2) have c': "list_all (stamped_by t') hs"
    by (auto simp add: list_all_iff intro: stamped_by_mono)
  have d: "\<forall>y\<in>set hs. no_later y (turn r x t')"
    using c' by (auto simp add: list_all_iff intro: stamped_no_later)
  show ?thesis
    using JArr a b c' d
    by (simp add: sorted_wrt_append stamp_turn stamped_by_def)
qed (use assms in simp_all)

lemma settled_mono: "settled t w \<Longrightarrow> t \<le> t' \<Longrightarrow> settled t' w"
  by (auto simp add: settled_def split: option.splits intro: until_mono)

lemma settled_history: "settled t (w\<lparr>history := Some h\<rparr>) = chronological_until t h"
  by (simp add: settled_def)

lemma settled_disk: "settled t (w\<lparr>disk := d\<rparr>) = settled t w"
  by (simp add: settled_def)

lemma send_settled:
  assumes "settled t w" and "t \<le> t_user i" and "t_user i \<le> t_assistant i"
  shows "settled (t_assistant i) (after (send_handler i w))"
proof -
  from assms(1) obtain h0 where h0: "history w = Some h0" "chronological_until t h0"
    by (auto simp add: settled_def split: option.splits)
  have w: "settled (t_assistant i) w"
    using assms settled_mono [of t w "t_assistant i"] by simp
  from until_append [OF h0(2) assms(2)] obtain h1 where
    h1: "append_message h0 (lit ''user'') (strip (user_input i)) (t_user i) = Inr h1"
      "chronological_until (t_user i) h1" by blast
  have h1': "chronological_until (t_assistant i) h1"
    using h1(2) assms(3) by (rule until_mono)
  show ?thesis
  proof (cases "ai_text (reply i)")
    case (Inl e)
    then show ?thesis
      using h0 h1 h1' w
      by (simp add: send_handler_def Let_def failed_def idle_def settled_history
          split: sum.splits)
  next
    case (Inr a)
    from until_append [OF h1(2) assms(3)] obtain h2 where
      h2: "append_message h1 (lit ''assistant'') a (t_assistant i) = Inr h2"
        "chronological_until (t_assistant i) h2" by blast
    show ?thesis
      using Inr h0 h1 h1' h2 w
      by (simp add: send_handler_def Let_def failed_def idle_def settled_history
          settled_disk split: sum.splits prod.splits)
  qed
qed

lemma clear_settled: "settled t (after (clear_handler i w))"
  by (simp add: clear_handler_def Let_def idle_def settled_history settled_disk
      split: sum.splits)

lemma export_after: "after (export_handler i w) = w"
  by (simp add: export_handler_def idle_def split: option.splits)

lemma show_after: "after (show_conversation i w) = w"
  by (simp add: show_conversation_def idle_def split: option.splits sum.splits)

lemma client_after: "after (make_client i w) = w"
  by (simp add: make_client_def idle_def)

lemma and_then_settled:
  "settled t (after out) \<Longrightarrow> t \<le> t' \<Longrightarrow>
   (\<And>w. settled t w \<Longrightarrow> settled t' (after (f w))) \<Longrightarrow>
   settled t' (after (and_then out f))"
  by (auto simp add: and_then_def Let_def intro: settled_mono)

text \<open>The first run of a session starts the history empty, whatever is on the disk.\<close>

lemma init_fresh:
  "history w = None \<Longrightarrow>
   after (init_history (defaults i) w) = w\<lparr>history := Some (JArr [])\<rparr>"
  by (simp add: init_history_def defaults_def idle_def)

lemma init_started: "history w = Some h \<Longrightarrow> after (init_history i w) = w"
  by (simp add: init_history_def idle_def)

lemma script_settled:
  assumes "settled t (after (init_history i w))" and "t \<le> t_user i"
    and "t_user i \<le> t_assistant i"
  shows "settled (t_assistant i) (after (script i w))"
proof -
  let ?t = "t_assistant i"
  have le: "t \<le> ?t" using assms by simp
  have 1: "settled t (after (and_then (init_history i w) (show_conversation i)))"
    using assms(1) by (rule and_then_settled) (simp_all add: show_after)
  have 2: "settled t (after (and_then (and_then (init_history i w) (show_conversation i))
             (make_client i)))"
    using 1 by (rule and_then_settled) (simp_all add: client_after)
  have 3: "settled ?t (after (and_then (and_then (and_then (init_history i w)
             (show_conversation i)) (make_client i))
             (\<lambda>w. if send i then send_handler i w else idle w)))"
    using 2 le
  proof (rule and_then_settled)
    fix w' assume "settled t w'"
    then show "settled ?t (after (if send i then send_handler i w' else idle w'))"
      using assms(2,3) le by (auto simp add: idle_def intro: send_settled settled_mono)
  qed
  have 4: "settled ?t (after (and_then (and_then (and_then (and_then (init_history i w)
             (show_conversation i)) (make_client i))
             (\<lambda>w. if send i then send_handler i w else idle w))
             (\<lambda>w. if clear i then clear_handler i w else idle w)))"
    using 3 by (rule and_then_settled) (simp_all add: clear_settled idle_def)
  show ?thesis
    unfolding script_def
    using 4 by (rule and_then_settled) (simp_all add: export_after idle_def)
qed

lemma run_settled:
  assumes "settled t w" and "t \<le> t_user i" and "t_user i \<le> t_assistant i"
  shows "settled (t_assistant i) (after (run i w))"
proof -
  from assms(1) obtain h where h: "history w = Some h"
    by (auto simp add: settled_def split: option.splits)
  then have "widgets w i = i" by (simp add: widgets_def)
  moreover have "settled t (after (init_history i w))"
    using h assms(1) by (simp add: init_started)
  ultimately show ?thesis
    using assms(2,3) by (simp add: run_def script_settled)
qed

lemma run_fresh:
  assumes "history w = None"
  shows "settled t (after (run i w))"
proof -
  have d: "\<not> send (defaults i)" "\<not> clear (defaults i)" "\<not> export (defaults i)"
    by (simp_all add: defaults_def)
  have 0: "settled t (after (init_history (defaults i) w))"
    using assms by (simp add: init_fresh settled_history)
  have 1: "settled t (after (and_then (init_history (defaults i) w)
             (show_conversation (defaults i))))"
    using 0 by (rule and_then_settled) (simp_all add: show_after)
  have 2: "settled t (after (and_then (and_then (init_history (defaults i) w)
             (show_conversation (defaults i))) (make_client (defaults i))))"
    using 1 by (rule and_then_settled) (simp_all add: client_after)
  have 3: "settled t (after (and_then (and_then (and_then (init_history (defaults i) w)
             (show_conversation (defaults i))) (make_client (defaults i))) idle))"
    using 2 by (rule and_then_settled) (simp_all add: idle_def)
  have 4: "settled t (after (and_then (and_then (and_then (and_then
             (init_history (defaults i) w)
             (show_conversation (defaults i))) (make_client (defaults i))) idle) idle))"
    using 3 by (rule and_then_settled) (simp_all add: idle_def)
  have 5: "settled t (after (and_then (and_then (and_then (and_then (and_then
             (init_history (defaults i) w)
             (show_conversation (defaults i))) (make_client (defaults i))) idle) idle)
             idle))"
    using 4 by (rule and_then_settled) (simp_all add: idle_def)
  show ?thesis
    using 5 assms d by (simp add: run_def script_def widgets_def)
qed

lemma runs_settled:
  "settled t w \<Longrightarrow> clock_ok t is \<Longrightarrow> \<exists>t'. settled t' (runs is w)"
proof (induction "is" arbitrary: t w)
  case Nil
  then show ?case by auto
next
  case (Cons i "is")
  from Cons.prems have "settled (t_assistant i) (after (run i w))"
    by (simp add: run_settled)
  then show ?case
    using Cons.IH [of "t_assistant i" "after (run i w)"] Cons.prems(2) by simp
qed

text \<open>
  C3: in every session, from its first run on, the timestamps of the conversation are
  non-decreasing in insertion order after every sequence of runs of the script (Send,
  Clear and Export in any mix, on any disk), while the readings of the clock that the
  appends take never go back.
\<close>

theorem timestamps_stay_chronological:
  "history w = None \<Longrightarrow> clock_ok t is \<Longrightarrow> history (runs is w) = Some h \<Longrightarrow>
   chronological h"
proof (cases "is")
  case Nil
  assume "history w = None" and "history (runs is w) = Some h"
  with Nil show ?thesis by simp
next
  case (Cons i rest)
  assume fresh: "history w = None" and clock: "clock_ok t is"
    and h: "history (runs is w) = Some h"
  have "settled (t_assistant i) (after (run i w))"
    using fresh by (rule run_fresh)
  moreover have "clock_ok (t_assistant i) rest"
    using clock Cons by simp
  ultimately obtain t' where "settled t' (runs rest (after (run i w)))"
    using runs_settled by blast
  then show ?thesis
    using h Cons by (auto simp add: settled_def intro: until_chronological)
qed

theorem timestamps_stay_chronological_witness:
  "history fresh_world = None \<and> clock_ok 0 [open_page, chat, chat_down] \<and>
   nodes (disk fresh_world) PERSIST_FILE
     = Some (Document (JObj [(lit ''saved_at'', JNum 6), (lit ''history'', backdated)])) \<and>
   history (runs [open_page, chat, chat_down] fresh_world) = Some (JArr
     [JObj [(lit ''role'', JStr (lit ''user'')), (lit ''text'', JStr (lit ''how are you?'')),
            (lit ''ts'', JNum 3)],
      JObj [(lit ''role'', JStr (lit ''assistant'')), (lit ''text'', JStr (lit ''fine'')),
            (lit ''ts'', JNum 4)],
      JObj [(lit ''role'', JStr (lit ''user'')), (lit ''text'', JStr (lit ''still there?'')),
            (lit ''ts'', JNum 7)]]) \<and>
   chronological (JArr
     [JObj [(lit ''role'', JStr (lit ''user'')), (lit ''text'', JStr (lit ''how are you?'')),
            (lit ''ts'', JNum 3)],
      JObj [(lit ''role'', JStr (lit ''assistant'')), (lit ''text'', JStr (lit ''fine'')),
            (lit ''ts'', JNum 4)],
      JObj [(lit ''role'', JStr (lit ''user'')), (lit ''text'', JStr (lit ''still there?'')),
            (lit ''ts'', JNum 7)]])"
  using timestamps_stay_chronological [of fresh_world 0 "[open_page, chat, chat_down]"
      "JArr
     [JObj [(lit ''role'', JStr (lit ''user'')), (lit ''text'', JStr (lit ''how are you?'')),
            (lit ''ts'', JNum 3)],
      JObj [(lit ''role'', JStr (lit ''assistant'')), (lit ''text'', JStr (lit ''fine'')),
            (lit ''ts'', JNum 4)],
      JObj [(lit ''role'', JStr (lit ''user'')), (lit ''text'', JStr (lit ''still there?'')),
            (lit ''ts'', JNum 7)]]"]
  by (simp add: fresh_world_def disk_with_def plain_disk_def open_page_def chat_def
      chat_down_def press_nothing_def run_def script_def widgets_def defaults_def
      init_history_def show_conversation_def render_chat_def render_message_def
      make_client_def and_then_def idle_def send_handler_def Let_def strip_def isspace_def
      failed_def py_last_def to_message_def system_message_def save_history_def
      write_json_def turn_def utf8_ok_def PERSIST_FILE_def DEFAULT_MODEL_def)

end
